theory Spec2Isabelle
  imports Main "HOL-Library.Sublist"
begin

section \<open>Strings as the program uses them\<close>

text \<open>
  Strings are lists of characters. The model reads a \<^typ>\<open>char\<close> as one code unit
  below 256. \<open>String.prototype.trim\<close> removes the white space and line terminators of
  that range; \<open>toUpperCase\<close> maps the letters a to z and leaves every other
  character as it is (the upper-case forms of the letters beyond ASCII are not ASCII
  either, so they do not bear on a comparison with the codec names).
\<close>

definition is_space_js :: "char \<Rightarrow> bool" where
  "is_space_js c = (of_char c \<in> {9, 10, 11, 12, 13, 32, 160 :: nat})"

definition trim :: "string \<Rightarrow> string" where
  "trim s = rev (dropWhile is_space_js (rev (dropWhile is_space_js s)))"

definition upper_char :: "char \<Rightarrow> char" where
  "upper_char c =
     (let n = (of_char c :: nat)
      in if 97 \<le> n \<and> n \<le> 122 then char_of (n - 32) else c)"

definition toUpperCase :: "string \<Rightarrow> string" where
  "toUpperCase s = map upper_char s"

text \<open>\<open>s.includes(sub)\<close>: \<open>sub\<close> occurs in \<open>s\<close> as a contiguous run.\<close>

fun str_includes :: "string \<Rightarrow> string \<Rightarrow> bool" where
  "str_includes [] sub = (sub = [])"
| "str_includes (c # cs) sub = (prefix sub (c # cs) \<or> str_includes cs sub)"

text \<open>
  \<open>s.split(sep)\<close> for a non-empty separator: the scan goes left to right, a match of
  the separator closes the current piece and the scan continues behind the match.
  \<open>split_from sep k acc rest\<close> has \<open>k\<close> characters of a matched separator still to
  skip and \<open>acc\<close> the current piece, reversed.
\<close>

fun split_from :: "string \<Rightarrow> nat \<Rightarrow> string \<Rightarrow> string \<Rightarrow> string list" where
  "split_from sep k acc [] = [rev acc]"
| "split_from sep (Suc k) acc (c # cs) = split_from sep k acc cs"
| "split_from sep 0 acc (c # cs) =
     (if prefix sep (c # cs) then rev acc # split_from sep (length sep - 1) [] cs
      else split_from sep 0 (c # acc) cs)"

definition split_js :: "string \<Rightarrow> string \<Rightarrow> string list" where
  "split_js s sep = split_from sep 0 [] s"

text \<open>\<open>s.split(sep).pop()\<close>: the last piece (the split is never empty).\<close>

definition split_pop :: "string \<Rightarrow> string \<Rightarrow> string" where
  "split_pop s sep = last (split_js s sep)"

text \<open>The decimal rendering of a natural number, as a template literal prints it.\<close>

fun digits :: "nat \<Rightarrow> string" where
  "digits n =
     (if n < 10 then [char_of (48 + n)]
      else digits (n div 10) @ [char_of (48 + n mod 10)])"

declare digits.simps [simp del]

text \<open>
  Truthiness of an optional string: \<open>undefined\<close>, \<open>null\<close> and the empty string are
  falsy. \<open>a || b\<close> is \<open>or_else a b\<close>.
\<close>

definition truthy :: "string option \<Rightarrow> bool" where
  "truthy v = (case v of None \<Rightarrow> False | Some s \<Rightarrow> s \<noteq> [])"

definition or_else :: "string option \<Rightarrow> string \<Rightarrow> string" where
  "or_else v d = (case v of None \<Rightarrow> d | Some s \<Rightarrow> if s = [] then d else s)"


section \<open>Configuration\<close>

definition VALID_VIDEO_CODECS :: "string list" where
  "VALID_VIDEO_CODECS = [''VP8'', ''H264'', ''H265'', ''VP9'', ''AV1'']"

definition parseVideoCodec :: "string \<Rightarrow> string" where
  "parseVideoCodec v =
     (let u = toUpperCase (trim v)
      in if u \<in> set VALID_VIDEO_CODECS then u else ''H264'')"

text \<open>
  The fields of \<open>config\<close> that the playback code reads. Width and height are the
  results of \<open>parseInt\<close>, taken as natural numbers.
\<close>

record config =
  cfg_guildId :: string
  cfg_cmdChannelId :: string
  cfg_videoChannelId :: string
  cfg_width :: nat
  cfg_height :: nat
  cfg_jellyfin_enabled :: bool

text \<open>The template \<open>`${config.width}x${config.height}`\<close>.\<close>

definition target_resolution :: "config \<Rightarrow> string" where
  "target_resolution cfg = digits (cfg_width cfg) @ ''x'' @ digits (cfg_height cfg)"


section \<open>Twitch stream URLs\<close>

text \<open>
  Modelled from the spec: the type \<open>TwitchStream\<close> of a rendition, which the code
  imports from its type declarations (not among the sources). The code reads its
  \<open>resolution\<close>, compared with \<open>===\<close> to the target string, and its \<open>url\<close>, read
  with \<open>?.url\<close>; either may be absent.
\<close>

record TwitchStream =
  resolution :: "string option"
  url :: "string option"

text \<open>
  \<open>xs.find(s => s.resolution === target) || xs[0]\<close>: an object is truthy, so the
  right operand is taken exactly when nothing is found; \<open>xs[0]\<close> of an empty array is
  \<open>undefined\<close>.
\<close>

definition select_rendition :: "string \<Rightarrow> TwitchStream list \<Rightarrow> TwitchStream option" where
  "select_rendition target xs =
     (case find (\<lambda>s. resolution s = Some target) xs of
        Some s \<Rightarrow> Some s
      | None \<Rightarrow> (case xs of [] \<Rightarrow> None | x # _ \<Rightarrow> Some x))"

text \<open>
  A promise that rejects is \<open>Inl\<close> of the error's message, one that resolves is
  \<open>Inr\<close> of the value. \<open>try_catch body handler\<close> is \<open>try { body } catch (e) { handler }\<close>.
\<close>

type_synonym 'a promise = "string + 'a"

definition try_catch :: "'a promise \<Rightarrow> (string \<Rightarrow> 'a promise) \<Rightarrow> 'a promise" where
  "try_catch body handler = (case body of Inl e \<Rightarrow> handler e | Inr v \<Rightarrow> Inr v)"

text \<open>\<open>if (s?.url) return s.url; ...; return null\<close>\<close>

definition rendition_url :: "TwitchStream option \<Rightarrow> string option" where
  "rendition_url sel =
     (case sel of
        None \<Rightarrow> None
      | Some s \<Rightarrow> if truthy (url s) then url s else None)"

text \<open>
  \<open>getVod\<close> and \<open>getStream\<close> are the playlist library's lookups, taken as
  parameters: given the id they reject or return the renditions.
\<close>

definition getTwitchStreamUrl ::
  "config \<Rightarrow> (string \<Rightarrow> TwitchStream list promise) \<Rightarrow> (string \<Rightarrow> TwitchStream list promise)
     \<Rightarrow> string \<Rightarrow> string option promise" where
  "getTwitchStreamUrl cfg getVod getStream link =
     try_catch
       (if str_includes link ''/videos/'' then
          (case getVod (split_pop link ''/videos/'') of
             Inl e \<Rightarrow> Inl e
           | Inr vodInfo \<Rightarrow> Inr (rendition_url (select_rendition (target_resolution cfg) vodInfo)))
        else
          (case getStream (split_pop link ''/'') of
             Inl e \<Rightarrow> Inl e
           | Inr streams \<Rightarrow> Inr (rendition_url (select_rendition (target_resolution cfg) streams))))
       (\<lambda>e. Inr None)"


section \<open>Session state and effects\<close>

text \<open>
  \<open>streamStatus\<close>, the module's status object.
\<close>

record channel_info =
  guildId :: string
  channelId :: string
  cmdChannelId :: string

record stream_status =
  joined :: bool
  joinsucc :: bool
  playing :: bool
  manualStop :: bool
  channelInfo :: channel_info

text \<open>
  What the code does to its collaborators, in the order it does it: the messages sent to
  the command channel, the calls to the voice transport, the downloader, the transcoding
  pipeline and the file system. Calls to the logger are left out.
\<close>

datatype event =
    SendError string
  | SendSuccess string
  | SendPlaying string
  | SendFinish
  | ReplyDownloading string
  | EditDownloadFailed string
  | DeleteDownloadingMessage
  | GetVideoInfo string
  | GetLiveStreamUrl string
  | DownloadToTempFile string
  | JoinVoice string string
  | SetActivityWatch string
  | SetActivityIdle
  | PrepareStream string
  | PlayStream
  | StopStream
  | LeaveVoice
  | UnlinkSync string

text \<open>
  The module's mutable state. \<open>controller\<close> is the module variable of that name:
  \<open>None\<close> while it is still \<open>undefined\<close>, otherwise the \<open>aborted\<close> flag of the
  AbortController it refers to. The code replaces the controller only after aborting the
  one it held, so the current one is the only controller whose flag can still change.
  \<open>videos\<close> is the catalog of local files (name, path); \<open>cachedChannels\<close> are the ids
  in the client's channel cache.
\<close>

record world =
  streamStatus :: stream_status
  controller :: "bool option"
  videos :: "(string \<times> string) list"
  cachedChannels :: "string list"
  effects :: "event list"

definition emit :: "event \<Rightarrow> world \<Rightarrow> world" where
  "emit e w = w\<lparr>effects := effects w @ [e]\<rparr>"

definition sendError :: "string \<Rightarrow> world \<Rightarrow> world" where
  "sendError msg w = emit (SendError msg) w"

definition sendSuccess :: "string \<Rightarrow> world \<Rightarrow> world" where
  "sendSuccess msg w = emit (SendSuccess msg) w"

definition sendPlaying :: "string \<Rightarrow> world \<Rightarrow> world" where
  "sendPlaying t w = emit (SendPlaying t) w"

text \<open>
  \<open>sendFinishMessage\<close> looks the command channel up in the cache and sends only if it
  is there.
\<close>

definition sendFinishMessage :: "config \<Rightarrow> world \<Rightarrow> world" where
  "sendFinishMessage cfg w =
     (if cfg_cmdChannelId cfg \<in> set (cachedChannels w) then emit SendFinish w else w)"

text \<open>\<open>controller?.abort()\<close>\<close>

definition abort_controller :: "world \<Rightarrow> world" where
  "abort_controller w =
     (case controller w of None \<Rightarrow> w | Some _ \<Rightarrow> w\<lparr>controller := Some True\<rparr>)"

definition blank_channel :: channel_info where
  "blank_channel = \<lparr>guildId = [], channelId = [], cmdChannelId = []\<rparr>"

definition idle_status :: stream_status where
  "idle_status =
     \<lparr>joined = False, joinsucc = False, playing = False, manualStop = False,
      channelInfo = blank_channel\<rparr>"

definition cleanupStreamStatus :: "world \<Rightarrow> world" where
  "cleanupStreamStatus w =
     (if manualStop (streamStatus w) then w
      else
        (let w1 = abort_controller w;
             w2 = emit StopStream w1;
             w3 = emit LeaveVoice w2;
             w4 = emit SetActivityIdle w3
         in w4\<lparr>streamStatus := idle_status\<rparr>))"


section \<open>The play attempt\<close>

text \<open>
  \<open>playVideo\<close> is an async function: it runs until it awaits a collaborator, and is
  resumed when that promise settles. An attempt is the function's local variables and the
  await it is suspended at. Between two resumptions other handlers may run on the same
  world. Sending a message is taken as one step with the code around it, and as
  succeeding (but for the "Downloading" reply, whose failure the code handles). The
  handler of \<open>voiceStateUpdate\<close>, which also writes the status, is outside this model.
\<close>

datatype pc =
    AwaitVideoInfo
  | AwaitLiveStreamUrl
  | AwaitDownloadingReply
  | AwaitDownload
  | AwaitJoinVoice
  | AwaitPlayStream
  | Returned
  | Threw

record attempt =
  pc :: pc
  videoSource :: string
  title :: "string option"
  inputForFfmpeg :: string
  tempFilePath :: "string option"
  downloadInProgressMessage :: bool
  isLiveYouTubeStream :: bool

text \<open>
  How an awaited promise settles. \<open>VideoInfo d\<close>: \<open>d\<close> is
  \<open>videoDetails?.videoDetails?.isLiveContent\<close>, \<open>None\<close> when a link of the chain is
  missing.
\<close>

datatype response =
    Rejects string
  | VideoInfo "bool option"
  | LiveStreamUrl "string option"
  | ReplySent
  | TempFile string
  | VoiceJoined
  | StreamSettled

definition is_youtube :: "string \<Rightarrow> bool" where
  "is_youtube src = (str_includes src ''youtube.com/'' \<or> str_includes src ''youtu.be/'')"

text \<open>
  The \<open>finally\<close> block. Reading \<open>controller.signal\<close> while the variable is undefined
  is a TypeError, which ends the block. \<open>pending\<close> says that an exception left the
  \<open>catch\<close> block and continues once the block is done.
\<close>

definition finally_block :: "config \<Rightarrow> bool \<Rightarrow> attempt \<Rightarrow> world \<Rightarrow> world \<times> attempt" where
  "finally_block cfg pending a w =
     (if \<not> manualStop (streamStatus w) \<and> controller w = None then (w, a\<lparr>pc := Threw\<rparr>)
      else
        (let w1 = (if \<not> manualStop (streamStatus w) \<and> controller w = Some False
                   then sendFinishMessage cfg w else w);
             w2 = cleanupStreamStatus w1;
             w3 = (if truthy (tempFilePath a) \<and> \<not> isLiveYouTubeStream a
                   then emit (UnlinkSync (or_else (tempFilePath a) [])) w2 else w2)
         in (w3, a\<lparr>pc := (if pending then Threw else Returned)\<rparr>)))"

text \<open>
  The \<open>catch\<close> block, \<open>if (!controller.signal.aborted) controller?.abort()\<close>, then
  the \<open>finally\<close> block.
\<close>

definition catch_finally :: "config \<Rightarrow> attempt \<Rightarrow> world \<Rightarrow> world \<times> attempt" where
  "catch_finally cfg a w =
     (case controller w of
        None \<Rightarrow> finally_block cfg True a w
      | Some _ \<Rightarrow> finally_block cfg False a (abort_controller w))"

text \<open>The call \<open>streamer.joinVoice(guildId, channelId)\<close>, which the attempt then awaits.\<close>

definition start_join :: "config \<Rightarrow> attempt \<Rightarrow> world \<Rightarrow> world \<times> attempt" where
  "start_join cfg a w =
     (emit (JoinVoice (cfg_guildId cfg) (cfg_videoChannelId cfg)) w, a\<lparr>pc := AwaitJoinVoice\<rparr>)"

text \<open>From the join to the await of \<open>playStream\<close>.\<close>

definition start_stream :: "config \<Rightarrow> attempt \<Rightarrow> world \<Rightarrow> world \<times> attempt" where
  "start_stream cfg a w =
     (let w1 = w\<lparr>streamStatus := (streamStatus w)
                  \<lparr>joined := True, playing := True,
                   channelInfo := \<lparr>guildId = cfg_guildId cfg, channelId = cfg_videoChannelId cfg,
                                   cmdChannelId = cfg_cmdChannelId cfg\<rparr>\<rparr>\<rparr>;
          w2 = (if truthy (title a) then emit (SetActivityWatch (or_else (title a) [])) w1 else w1);
          w3 = sendPlaying (or_else (title a) (videoSource a)) w2;
          w4 = abort_controller w3;
          w5 = w4\<lparr>controller := Some False\<rparr>;
          w6 = emit (PrepareStream (inputForFfmpeg a)) w5;
          w7 = emit PlayStream w6
      in (w7, a\<lparr>pc := AwaitPlayStream\<rparr>))"

text \<open>The start of \<open>playVideo\<close>, up to its first await.\<close>

definition playVideo :: "config \<Rightarrow> string \<Rightarrow> string option \<Rightarrow> world \<Rightarrow> world \<times> attempt" where
  "playVideo cfg src ttl w =
     (let w1 = w\<lparr>streamStatus := (streamStatus w)\<lparr>manualStop := False\<rparr>\<rparr>;
          a = \<lparr>pc = AwaitVideoInfo, videoSource = src, title = ttl, inputForFfmpeg = src,
               tempFilePath = None, downloadInProgressMessage = False,
               isLiveYouTubeStream = False\<rparr>
      in if is_youtube src then (emit (GetVideoInfo src) w1, a)
         else start_join cfg a w1)"

text \<open>
  The resumption of the attempt when the promise it awaits settles with \<open>r\<close>. A
  response that does not belong to the await, and any response to an attempt that is
  over, leaves everything as it is.
\<close>

definition resume :: "config \<Rightarrow> response \<Rightarrow> world \<times> attempt \<Rightarrow> world \<times> attempt" where
  "resume cfg r wa =
     (let w = fst wa; a = snd wa in
      case pc a of
        AwaitVideoInfo \<Rightarrow>
          (case r of
             Rejects e \<Rightarrow> catch_finally cfg a w
           | VideoInfo d \<Rightarrow>
               if d = Some True then
                 (emit (GetLiveStreamUrl (videoSource a)) w,
                  a\<lparr>pc := AwaitLiveStreamUrl, isLiveYouTubeStream := True\<rparr>)
               else
                 (emit (ReplyDownloading (or_else (title a) ''YouTube video'')) w,
                  a\<lparr>pc := AwaitDownloadingReply\<rparr>)
           | _ \<Rightarrow> wa)
      | AwaitLiveStreamUrl \<Rightarrow>
          (case r of
             Rejects e \<Rightarrow> catch_finally cfg a w
           | LiveStreamUrl u \<Rightarrow>
               if truthy u then start_join cfg (a\<lparr>inputForFfmpeg := or_else u []\<rparr>) w
               else
                 (let w1 = sendError (''Failed to get live stream URL for `''
                              @ or_else (title a) ''YouTube live video'' @ ''`.'') w;
                      w2 = cleanupStreamStatus w1
                  in finally_block cfg False a w2)
           | _ \<Rightarrow> wa)
      | AwaitDownloadingReply \<Rightarrow>
          (case r of
             Rejects e \<Rightarrow>
               (emit (DownloadToTempFile (videoSource a)) w,
                a\<lparr>pc := AwaitDownload, downloadInProgressMessage := False\<rparr>)
           | ReplySent \<Rightarrow>
               (emit (DownloadToTempFile (videoSource a)) w,
                a\<lparr>pc := AwaitDownload, downloadInProgressMessage := True\<rparr>)
           | _ \<Rightarrow> wa)
      | AwaitDownload \<Rightarrow>
          (case r of
             TempFile p \<Rightarrow>
               (let a1 = a\<lparr>tempFilePath := Some p, inputForFfmpeg := p\<rparr>;
                    w1 = (if downloadInProgressMessage a then emit DeleteDownloadingMessage w else w)
                in start_join cfg a1 w1)
           | Rejects e \<Rightarrow>
               (let w1 = (if downloadInProgressMessage a
                          then emit (EditDownloadFailed (or_else (title a) ''YouTube video'')) w
                          else sendError (''Failed to download video: '' @ e) w);
                    w2 = cleanupStreamStatus w1
                in finally_block cfg False a w2)
           | _ \<Rightarrow> wa)
      | AwaitJoinVoice \<Rightarrow>
          (case r of
             Rejects e \<Rightarrow> catch_finally cfg a w
           | VoiceJoined \<Rightarrow> start_stream cfg a w
           | _ \<Rightarrow> wa)
      | AwaitPlayStream \<Rightarrow>
          (case r of
             StreamSettled \<Rightarrow>
               (case controller w of
                  None \<Rightarrow> catch_finally cfg a w
                | Some _ \<Rightarrow> finally_block cfg False a w)
           | Rejects e \<Rightarrow>
               (case controller w of
                  None \<Rightarrow> catch_finally cfg a w
                | Some _ \<Rightarrow> finally_block cfg False a (abort_controller w))
           | _ \<Rightarrow> wa)
      | Returned \<Rightarrow> wa
      | Threw \<Rightarrow> wa)"


text \<open>An attempt resumed by the responses of its awaits, one after the other.\<close>

definition run :: "config \<Rightarrow> response list \<Rightarrow> world \<times> attempt \<Rightarrow> world \<times> attempt" where
  "run cfg rs wa = foldl (\<lambda>s r. resume cfg r s) wa rs"



section \<open>Command handlers\<close>

text \<open>The \<open>stop\<close> case of the message handler.\<close>

definition stop_command :: "world \<Rightarrow> world" where
  "stop_command w =
     (if \<not> joined (streamStatus w) then sendError ''**Already Stopped!**'' w
      else
        (let w1 = w\<lparr>streamStatus := (streamStatus w)\<lparr>manualStop := True\<rparr>\<rparr>;
             w2 = abort_controller w1;
             w3 = sendSuccess ''Stopped playing video.'' w2;
             w4 = emit StopStream w3;
             w5 = emit LeaveVoice w4;
             w6 = emit SetActivityIdle w5
         in w6\<lparr>streamStatus := (streamStatus w6)
                  \<lparr>joined := False, joinsucc := False, playing := False,
                   channelInfo := blank_channel\<rparr>\<rparr>))"

text \<open>
  The lookups the handlers await before they call \<open>playVideo\<close>, taken as parameters:
  the YouTube metadata lookup (the title, if any), the two searches of \<open>ytplay\<close>
  (the second gives page URL and title), the playlist lookups of Twitch, and the Jellyfin
  client (the stream URL of an item, and its display name when the item is found).
\<close>

record collaborators =
  youtube_getVideoInfo :: "string \<Rightarrow> string option promise"
  yts_search :: "string \<Rightarrow> unit promise"
  youtube_searchAndGetPageUrl :: "string \<Rightarrow> (string option \<times> string option) promise"
  twitch_getVod :: "string \<Rightarrow> TwitchStream list promise"
  twitch_getStream :: "string \<Rightarrow> TwitchStream list promise"
  jf_getStreamInfo :: "string \<Rightarrow> string option promise"
  jf_getDisplayName :: "string \<Rightarrow> string option"

text \<open>\<open>args.shift()\<close>, \<open>undefined\<close> on an empty array.\<close>

definition shift :: "string list \<Rightarrow> string option" where
  "shift args = (case args of [] \<Rightarrow> None | x # _ \<Rightarrow> Some x)"

text \<open>\<open>xs.join(' ')\<close>\<close>

fun join_space :: "string list \<Rightarrow> string" where
  "join_space [] = []"
| "join_space [x] = x"
| "join_space (x # y # ys) = x @ '' '' @ join_space (y # ys)"

text \<open>
  Each handler returns the world and the attempt it started, if any. The \<open>play\<close> case;
  the adjustment of the stream options to the file's parameters touches neither the
  session state nor a collaborator of this model and is left out.
\<close>

definition play_command :: "config \<Rightarrow> string list \<Rightarrow> world \<Rightarrow> world \<times> attempt option" where
  "play_command cfg args w =
     (if joined (streamStatus w) then (sendError ''Already joined'' w, None)
      else
        (let videoname = shift args in
         case find (\<lambda>m. Some (fst m) = videoname) (videos w) of
           None \<Rightarrow> (sendError ''Video not found'' w, None)
         | Some video \<Rightarrow>
             (let w1 = sendPlaying (or_else videoname ''Local Video'') w;
                  wa = playVideo cfg (snd video) videoname w1
              in (fst wa, Some (snd wa)))))"

definition playlink_command ::
  "config \<Rightarrow> collaborators \<Rightarrow> string list \<Rightarrow> world \<Rightarrow> world \<times> attempt option" where
  "playlink_command cfg col args w =
     (if joined (streamStatus w) then (sendError ''Already joined'' w, None)
      else
        (let link = or_else (shift args) [] in
         if link = [] then (sendError ''Please provide a link.'' w, None)
         else if str_includes link ''youtube.com/'' \<or> str_includes link ''youtu.be/'' then
           (case youtube_getVideoInfo col link of
              Inl e \<Rightarrow> (sendError ''Error processing YouTube link.'' w, None)
            | Inr t \<Rightarrow>
                if truthy t then
                  (let wa = playVideo cfg link t w in (fst wa, Some (snd wa)))
                else (sendError ''Failed to process YouTube link.'' w, None))
         else if str_includes link ''twitch.tv'' then
           (let twitchId = split_pop link ''/'' in
            case getTwitchStreamUrl cfg (twitch_getVod col) (twitch_getStream col) link of
              Inl e \<Rightarrow> (w, None)
            | Inr twitchUrl \<Rightarrow>
                if truthy twitchUrl then
                  (let w1 = sendPlaying (twitchId @ [CHR 39] @ ''s Twitch Stream'') w;
                       wa = playVideo cfg (or_else twitchUrl []) (Some (''twitch.tv/'' @ twitchId)) w1
                   in (fst wa, Some (snd wa)))
                else (w, None))
         else
           (let w1 = sendPlaying ''URL'' w;
                wa = playVideo cfg link (Some ''URL'') w1
            in (fst wa, Some (snd wa)))))"

text \<open>
  \<open>args.length > 1 ? args.slice(1).join(' ') : args[1] || args.shift() || ''\<close>
\<close>

definition ytplay_title :: "string list \<Rightarrow> string" where
  "ytplay_title args =
     (if length args > 1 then join_space (tl args) else or_else (shift args) [])"

definition ytplay_command ::
  "config \<Rightarrow> collaborators \<Rightarrow> string list \<Rightarrow> world \<Rightarrow> world \<times> attempt option" where
  "ytplay_command cfg col args w =
     (let ttl = ytplay_title args in
      if ttl = [] then (sendError ''Please provide a video title.'' w, None)
      else
        (let failed = (sendError ''Failed to play video. Please try again.''
                         (cleanupStreamStatus w), None) in
         case yts_search col ttl of
           Inl e \<Rightarrow> failed
         | Inr _ \<Rightarrow>
             (case youtube_searchAndGetPageUrl col ttl of
                Inl e \<Rightarrow> failed
              | Inr res \<Rightarrow>
                  if truthy (fst res) \<and> truthy (snd res) then
                    (let wa = playVideo cfg (or_else (fst res) []) (snd res) w
                     in (fst wa, Some (snd wa)))
                  else failed)))"

definition jfplay_command ::
  "config \<Rightarrow> collaborators \<Rightarrow> string list \<Rightarrow> world \<Rightarrow> world \<times> attempt option" where
  "jfplay_command cfg col args w =
     (if \<not> cfg_jellyfin_enabled cfg then
        (sendError ''Jellyfin integration is not enabled'' w, None)
      else if joined (streamStatus w) then (sendError ''Already joined'' w, None)
      else
        (let itemId = or_else (shift args) [] in
         if itemId = [] then (sendError ''Please provide a Jellyfin item ID'' w, None)
         else
           (case jf_getStreamInfo col itemId of
              Inl e \<Rightarrow> (sendError (''Failed to play item: '' @ e) w, None)
            | Inr None \<Rightarrow> (sendError ''Failed to get stream information for this item'' w, None)
            | Inr (Some streamUrl) \<Rightarrow>
                (let displayName = (case jf_getDisplayName col itemId of
                                      None \<Rightarrow> ''Jellyfin Item '' @ itemId
                                    | Some n \<Rightarrow> n);
                     w1 = sendPlaying displayName w;
                     wa = playVideo cfg streamUrl (Some displayName) w1
                 in (fst wa, Some (snd wa))))))"

text \<open>
  The play-class commands and \<open>stop\<close>, as the \<open>switch\<close> of the message handler
  dispatches them.
\<close>

datatype user_cmd = Play | Playlink | Ytplay | Jfplay | Stop

fun messageCreate ::
  "config \<Rightarrow> collaborators \<Rightarrow> user_cmd \<Rightarrow> string list \<Rightarrow> world \<Rightarrow> world \<times> attempt option" where
  "messageCreate cfg col Play args w = play_command cfg args w"
| "messageCreate cfg col Playlink args w = playlink_command cfg col args w"
| "messageCreate cfg col Ytplay args w = ytplay_command cfg col args w"
| "messageCreate cfg col Jfplay args w = jfplay_command cfg col args w"
| "messageCreate cfg col Stop args w = (stop_command w, None)"

text \<open>The effects added between two worlds of one run.\<close>

definition since :: "world \<Rightarrow> world \<Rightarrow> event list" where
  "since w w' = drop (length (effects w)) (effects w')"

text \<open>
  What the last statement of the \<open>finally\<close> block adds: the deletion of the temporary
  file, if the attempt has one.
\<close>

definition unlink_events :: "attempt \<Rightarrow> event list" where
  "unlink_events a =
     (if truthy (tempFilePath a) \<and> \<not> isLiveYouTubeStream a
      then [UnlinkSync (or_else (tempFilePath a) [])] else [])"

text \<open>
  The messages that tell the command channel how playback ended: finished, stopped, or an
  error.
\<close>

fun is_terminal :: "event \<Rightarrow> bool" where
  "is_terminal SendFinish = True"
| "is_terminal (SendSuccess m) = True"
| "is_terminal (SendError m) = True"
| "is_terminal (EditDownloadFailed t) = True"
| "is_terminal e = False"

definition terminal_notifications :: "event list \<Rightarrow> event list" where
  "terminal_notifications es = filter is_terminal es"


section \<open>Concrete inputs\<close>

text \<open>
  The module's state when the process starts: nothing joined, no controller yet, the
  channel information taken from the configuration.
\<close>

definition initial_world :: "config \<Rightarrow> (string \<times> string) list \<Rightarrow> string list \<Rightarrow> world" where
  "initial_world cfg vids cache =
     \<lparr>streamStatus =
        \<lparr>joined = False, joinsucc = False, playing = False, manualStop = False,
         channelInfo = \<lparr>guildId = cfg_guildId cfg, channelId = cfg_videoChannelId cfg,
                         cmdChannelId = cfg_cmdChannelId cfg\<rparr>\<rparr>,
      controller = None, videos = vids, cachedChannels = cache, effects = []\<rparr>"

text \<open>A configuration, a catalog and renditions for the examples below.\<close>

definition example_config :: config where
  "example_config =
     \<lparr>cfg_guildId = ''guild-1'', cfg_cmdChannelId = ''chan-cmd'',
      cfg_videoChannelId = ''chan-video'', cfg_width = 1280, cfg_height = 720,
      cfg_jellyfin_enabled = True\<rparr>"

definition example_world :: world where
  "example_world =
     initial_world example_config [(''My_Video'', ''videos/My_Video.mp4'')] [''chan-cmd'']"

text \<open>
  Collaborators whose searches find a YouTube page, and ones whose search rejects.
\<close>

definition example_collaborators :: collaborators where
  "example_collaborators =
     \<lparr>youtube_getVideoInfo = (\<lambda>l. Inr (Some ''A title'')),
      yts_search = (\<lambda>t. Inr ()),
      youtube_searchAndGetPageUrl =
        (\<lambda>t. Inr (Some ''https://www.youtube.com/watch?v=abc'', Some ''A song'')),
      twitch_getVod = (\<lambda>i. Inl ''not found''),
      twitch_getStream = (\<lambda>i. Inl ''offline''),
      jf_getStreamInfo = (\<lambda>i. Inr None),
      jf_getDisplayName = (\<lambda>i. None)\<rparr>"

definition failing_collaborators :: collaborators where
  "failing_collaborators =
     example_collaborators\<lparr>yts_search := (\<lambda>t. Inl ''search failed'')\<rparr>"

text \<open>
  The local video of the catalog is playing: the \<open>play\<close> command was accepted in the
  initial state and the voice join has completed.
\<close>

definition playing_run :: "world \<times> attempt" where
  "playing_run =
     run example_config [VoiceJoined]
       (playVideo example_config ''videos/My_Video.mp4'' (Some ''My_Video'')
          (sendPlaying ''My_Video'' example_world))"

text \<open>
  \<open>ytplay song\<close> arrives while that video is playing: the attempt it starts, and the
  same attempt once the video has turned out to be live, its manifest URL has been
  obtained and the voice join has completed.
\<close>

definition second_attempt :: "world \<times> attempt" where
  "second_attempt =
     playVideo example_config ''https://www.youtube.com/watch?v=abc'' (Some ''A song'')
       (fst playing_run)"

definition second_playing :: "world \<times> attempt" where
  "second_playing =
     run example_config
       [VideoInfo (Some True), LiveStreamUrl (Some ''https://manifest.example/live.m3u8''),
        VoiceJoined]
       second_attempt"

text \<open>
  The first attempt after the process has started, for a YouTube video that is not live:
  suspended at the download, then with the download done and the voice join awaited.
\<close>

definition downloading_run :: "world \<times> attempt" where
  "downloading_run =
     run example_config [VideoInfo (Some False), ReplySent]
       (playVideo example_config ''https://youtu.be/abc'' (Some ''A title'') example_world)"

definition downloaded_run :: "world \<times> attempt" where
  "downloaded_run = run example_config [TempFile ''/tmp/abc.mp4''] downloading_run"



section \<open>Theorems\<close>

lemma split_from_nonempty: "split_from sep k acc s \<noteq> []"
  by (induction sep k acc s rule: split_from.induct) auto

subsection \<open>parseVideoCodec\<close>

lemma is_space_upper_char: "is_space_js (upper_char c) = is_space_js c"
proof (cases "97 \<le> (of_char c :: nat) \<and> (of_char c :: nat) \<le> 122")
  case True
  then have "(of_char c - 32 :: nat) mod 256 = of_char c - 32"
    by (intro mod_less) arith
  with True have "(of_char (upper_char c) :: nat) = of_char c - 32"
    by (simp add: upper_char_def Let_def)
  with True show ?thesis by (auto simp: is_space_js_def)
next
  case False
  then show ?thesis by (auto simp add: upper_char_def Let_def)
qed

lemma trim_pad:
  assumes "\<forall>c \<in> set a. is_space_js c" and "\<forall>c \<in> set b. is_space_js c"
  shows "trim (a @ v @ b) = trim v"
proof -
  have 1: "dropWhile is_space_js (a @ v @ b) = dropWhile is_space_js (v @ b)"
    by (rule dropWhile_append2) (use assms(1) in auto)
  show ?thesis
  proof (cases "\<forall>c \<in> set v. is_space_js c")
    case True
    then have e1: "dropWhile is_space_js (a @ v @ b) = []"
      using assms by auto
    have e2: "dropWhile is_space_js v = []"
      using True by auto
    show ?thesis unfolding trim_def e1 e2 by simp
  next
    case False
    then obtain x where x: "x \<in> set v" "\<not> is_space_js x" by blast
    then have 2: "dropWhile is_space_js (v @ b) = dropWhile is_space_js v @ b"
      by (rule dropWhile_append1)
    have "dropWhile is_space_js (rev b @ rev (dropWhile is_space_js v))
          = dropWhile is_space_js (rev (dropWhile is_space_js v))"
      by (rule dropWhile_append2) (use assms(2) in auto)
    then show ?thesis unfolding trim_def 1 2 by simp
  qed
qed

lemma dropWhile_space_upper:
  "dropWhile is_space_js (map upper_char s) = map upper_char (dropWhile is_space_js s)"
  by (induction s) (simp_all add: is_space_upper_char)

lemma trim_map_upper: "trim (map upper_char s) = map upper_char (trim s)"
proof -
  have "rev (map upper_char (dropWhile is_space_js s)) = map upper_char (rev (dropWhile is_space_js s))"
    by (simp add: rev_map)
  then show ?thesis
    unfolding trim_def by (simp only: dropWhile_space_upper rev_map)
qed

text \<open>
  C8. \<open>parseVideoCodec\<close> is total and always returns one of the valid codec names:
  the trimmed, upper-cased input if that is one of VP8, H264, H265, VP9, AV1, and H264
  for every other input. White space around the input and the case of its letters do not
  change the result.
\<close>

theorem parseVideoCodec_total_and_insensitive:
  "parseVideoCodec v \<in> set VALID_VIDEO_CODECS
   \<and> (toUpperCase (trim v) \<in> set VALID_VIDEO_CODECS \<longrightarrow> parseVideoCodec v = toUpperCase (trim v))
   \<and> (toUpperCase (trim v) \<notin> set VALID_VIDEO_CODECS \<longrightarrow> parseVideoCodec v = ''H264'')
   \<and> ((\<forall>c \<in> set a. is_space_js c) \<and> (\<forall>c \<in> set b. is_space_js c)
        \<longrightarrow> parseVideoCodec (a @ v @ b) = parseVideoCodec v)
   \<and> (toUpperCase u = toUpperCase v \<longrightarrow> parseVideoCodec u = parseVideoCodec v)"
proof -
  have A: "parseVideoCodec v \<in> set VALID_VIDEO_CODECS"
    by (simp add: parseVideoCodec_def Let_def) (simp add: VALID_VIDEO_CODECS_def)
  have B: "toUpperCase u = toUpperCase v \<Longrightarrow> parseVideoCodec u = parseVideoCodec v"
  proof -
    assume "toUpperCase u = toUpperCase v"
    then have "toUpperCase (trim u) = toUpperCase (trim v)"
      unfolding toUpperCase_def by (metis trim_map_upper)
    then show ?thesis by (simp add: parseVideoCodec_def)
  qed
  have C: "(\<forall>c \<in> set a. is_space_js c) \<and> (\<forall>c \<in> set b. is_space_js c)
        \<Longrightarrow> parseVideoCodec (a @ v @ b) = parseVideoCodec v"
    by (simp add: parseVideoCodec_def trim_pad)
  have D: "toUpperCase (trim v) \<in> set VALID_VIDEO_CODECS \<Longrightarrow> parseVideoCodec v = toUpperCase (trim v)"
    by (simp add: parseVideoCodec_def)
  have E: "toUpperCase (trim v) \<notin> set VALID_VIDEO_CODECS \<Longrightarrow> parseVideoCodec v = ''H264''"
    by (simp add: parseVideoCodec_def)
  show ?thesis using A B C D E by blast
qed

text \<open>The theorem at \<open>" vp9  "\<close>, \<open>"mpeg2"\<close>, a padded \<open>"Av1"\<close> and \<open>"h265"\<close>.\<close>

theorem parseVideoCodec_witness:
  "parseVideoCodec '' vp9  '' = ''VP9'' \<and> parseVideoCodec ''mpeg2'' = ''H264''
   \<and> parseVideoCodec (''  '' @ ''Av1'' @ '' '') = parseVideoCodec ''Av1''
   \<and> parseVideoCodec ''h265'' = parseVideoCodec ''H265''"
proof -
  have 1: "toUpperCase (trim '' vp9  '') \<in> set VALID_VIDEO_CODECS" by code_simp
  have 2: "toUpperCase (trim ''mpeg2'') \<notin> set VALID_VIDEO_CODECS" by code_simp
  have 3: "(\<forall>c \<in> set ''  ''. is_space_js c) \<and> (\<forall>c \<in> set '' ''. is_space_js c)" by code_simp
  have 4: "toUpperCase ''h265'' = toUpperCase ''H265''" by code_simp
  have 5: "toUpperCase (trim '' vp9  '') = ''VP9''" by code_simp
  from parseVideoCodec_total_and_insensitive [of "'' vp9  ''"] 1 5
  have a: "parseVideoCodec '' vp9  '' = ''VP9''" by simp
  from parseVideoCodec_total_and_insensitive [of "''mpeg2''"] 2
  have b: "parseVideoCodec ''mpeg2'' = ''H264''" by blast
  from parseVideoCodec_total_and_insensitive [of "''Av1''" "''  ''" "'' ''"] 3
  have c: "parseVideoCodec (''  '' @ ''Av1'' @ '' '') = parseVideoCodec ''Av1''" by blast
  from parseVideoCodec_total_and_insensitive [of "''H265''" _ _ "''h265''"] 4
  have d: "parseVideoCodec ''h265'' = parseVideoCodec ''H265''" by blast
  show ?thesis using a b c d by blast
qed

subsection \<open>Twitch renditions\<close>




lemma target_example: "target_resolution example_config = ''1280x720''"
  by code_simp


text \<open>The spec's second example: a single rendition 640x360 is taken as it is.\<close>

lemma twitch_fallback_example:
  "getTwitchStreamUrl example_config (\<lambda>i. Inl ''no vod'')
     (\<lambda>i. Inr [\<lparr>resolution = Some ''640x360'', url = Some ''https://cdn.example/360.m3u8''\<rparr>])
     ''https://www.twitch.tv/somechannel'' = Inr (Some ''https://cdn.example/360.m3u8'')"
  by (simp add: getTwitchStreamUrl_def try_catch_def rendition_url_def select_rendition_def
      target_example truthy_def)

text \<open>
  C10. \<open>getTwitchStreamUrl\<close> never rejects. When the playlist lookup rejects, when
  it returns no rendition, or when the selected rendition has no URL, the result is
  \<open>null\<close>.
\<close>

theorem getTwitchStreamUrl_never_rejects:
  "(\<exists>r. getTwitchStreamUrl cfg getVod getStream link = Inr r)
   \<and> (\<forall>e. (if str_includes link ''/videos/'' then getVod (split_pop link ''/videos/'')
            else getStream (split_pop link ''/'')) = Inl e
        \<longrightarrow> getTwitchStreamUrl cfg getVod getStream link = Inr None)
   \<and> (\<forall>xs. (if str_includes link ''/videos/'' then getVod (split_pop link ''/videos/'')
             else getStream (split_pop link ''/'')) = Inr xs
        \<longrightarrow> (case select_rendition (target_resolution cfg) xs of
               None \<Rightarrow> getTwitchStreamUrl cfg getVod getStream link = Inr None
             | Some s \<Rightarrow>
                 getTwitchStreamUrl cfg getVod getStream link
                   = Inr (if truthy (url s) then url s else None)))"
  by (auto simp: getTwitchStreamUrl_def try_catch_def rendition_url_def
      split: sum.splits option.splits)

text \<open>A VOD lookup that rejects, a live lookup that returns nothing, a rendition without URL.\<close>

theorem getTwitchStreamUrl_never_rejects_witness:
  "getTwitchStreamUrl example_config (\<lambda>i. Inl ''HTTP 404'') (\<lambda>i. Inl ''offline'')
     ''https://www.twitch.tv/videos/123456'' = Inr None
   \<and> getTwitchStreamUrl example_config (\<lambda>i. Inl ''HTTP 404'') (\<lambda>i. Inr [])
     ''https://www.twitch.tv/somechannel'' = Inr None
   \<and> getTwitchStreamUrl example_config (\<lambda>i. Inl ''HTTP 404'')
        (\<lambda>i. Inr [\<lparr>resolution = None, url = None\<rparr>])
     ''https://www.twitch.tv/somechannel'' = Inr None"
proof -
  let ?vod = "\<lambda>i::string. (Inl ''HTTP 404'' :: TwitchStream list promise)"
  have 1: "(if str_includes ''https://www.twitch.tv/videos/123456'' ''/videos/''
            then ?vod (split_pop ''https://www.twitch.tv/videos/123456'' ''/videos/'')
            else (\<lambda>i. Inl ''offline'') (split_pop ''https://www.twitch.tv/videos/123456'' ''/''))
           = Inl ''HTTP 404''"
    by simp
  have 2: "(if str_includes ''https://www.twitch.tv/somechannel'' ''/videos/''
            then ?vod (split_pop ''https://www.twitch.tv/somechannel'' ''/videos/'')
            else (\<lambda>i. Inr []) (split_pop ''https://www.twitch.tv/somechannel'' ''/''))
           = Inr []"
    by simp
  have 3: "(if str_includes ''https://www.twitch.tv/somechannel'' ''/videos/''
            then ?vod (split_pop ''https://www.twitch.tv/somechannel'' ''/videos/'')
            else (\<lambda>i. Inr [\<lparr>resolution = None, url = None\<rparr>])
                   (split_pop ''https://www.twitch.tv/somechannel'' ''/''))
           = Inr [\<lparr>resolution = None, url = None\<rparr>]"
    by simp
  have a: "getTwitchStreamUrl example_config ?vod (\<lambda>i. Inl ''offline'')
     ''https://www.twitch.tv/videos/123456'' = Inr None"
    using getTwitchStreamUrl_never_rejects
      [of example_config ?vod "\<lambda>i. Inl ''offline''" "''https://www.twitch.tv/videos/123456''"] 1
    by blast
  have b: "getTwitchStreamUrl example_config ?vod (\<lambda>i. Inr [])
     ''https://www.twitch.tv/somechannel'' = Inr None"
    using getTwitchStreamUrl_never_rejects
      [of example_config ?vod "\<lambda>i. Inr []" "''https://www.twitch.tv/somechannel''"] 2
    by (auto simp: select_rendition_def)
  have c: "getTwitchStreamUrl example_config ?vod (\<lambda>i. Inr [\<lparr>resolution = None, url = None\<rparr>])
     ''https://www.twitch.tv/somechannel'' = Inr None"
    using getTwitchStreamUrl_never_rejects
      [of example_config ?vod "\<lambda>i. Inr [\<lparr>resolution = None, url = None\<rparr>]"
          "''https://www.twitch.tv/somechannel''"] 3
    by (auto simp: select_rendition_def truthy_def)
  show ?thesis using a b c by blast
qed

subsection \<open>Commands and play attempts\<close>

lemmas handler_defs =
  emit_def sendError_def sendSuccess_def sendPlaying_def sendFinishMessage_def
  abort_controller_def cleanupStreamStatus_def finally_block_def catch_finally_def
  start_join_def start_stream_def playVideo_def resume_def stop_command_def
  run_def since_def truthy_def or_else_def idle_status_def blank_channel_def

lemmas example_defs =
  example_config_def example_world_def initial_world_def is_youtube_def

text \<open>
  C9. A \<open>stop\<close> command that arrives while \<open>streamStatus.joined\<close> is false is answered
  with the error "Already Stopped!" and changes nothing else: the status record and the
  abort controller are as before, and neither the voice transport nor the pipeline is
  called.
\<close>

theorem stop_rejected_when_not_joined:
  assumes "\<not> joined (streamStatus w)"
  shows "messageCreate cfg col Stop args w
           = (w\<lparr>effects := effects w @ [SendError ''**Already Stopped!**'']\<rparr>, None)
         \<and> streamStatus (fst (messageCreate cfg col Stop args w)) = streamStatus w
         \<and> controller (fst (messageCreate cfg col Stop args w)) = controller w
         \<and> since w (fst (messageCreate cfg col Stop args w)) = [SendError ''**Already Stopped!**'']"
  using assms by (simp add: stop_command_def sendError_def emit_def since_def)

text \<open>The theorem in the initial state.\<close>

theorem stop_rejected_when_not_joined_witness:
  "\<not> joined (streamStatus example_world)
   \<and> messageCreate example_config example_collaborators Stop [] example_world
       = (example_world\<lparr>effects := [SendError ''**Already Stopped!**'']\<rparr>, None)"
proof -
  have h: "\<not> joined (streamStatus example_world)"
    by (simp add: example_world_def initial_world_def)
  have e: "effects example_world = []"
    by (simp add: example_world_def initial_world_def)
  from stop_rejected_when_not_joined [OF h, of example_config example_collaborators "[]"] h e
  show ?thesis by simp
qed

text \<open>The state while the local video plays, and the command that led there.\<close>

lemma playing_run_eval:
  "fst playing_run =
     \<lparr>streamStatus =
        \<lparr>joined = True, joinsucc = False, playing = True, manualStop = False,
         channelInfo = \<lparr>guildId = ''guild-1'', channelId = ''chan-video'',
                         cmdChannelId = ''chan-cmd''\<rparr>\<rparr>,
      controller = Some False, videos = [(''My_Video'', ''videos/My_Video.mp4'')],
      cachedChannels = [''chan-cmd''],
      effects = [SendPlaying ''My_Video'', JoinVoice ''guild-1'' ''chan-video'',
                 SetActivityWatch ''My_Video'', SendPlaying ''My_Video'',
                 PrepareStream ''videos/My_Video.mp4'', PlayStream]\<rparr>"
  "pc (snd playing_run) = AwaitPlayStream"
  by (simp_all add: playing_run_def handler_defs example_defs)

lemma play_command_example:
  "messageCreate example_config example_collaborators Play [''My_Video''] example_world
     = (fst (playVideo example_config ''videos/My_Video.mp4'' (Some ''My_Video'')
          (sendPlaying ''My_Video'' example_world)),
        Some (snd (playVideo example_config ''videos/My_Video.mp4'' (Some ''My_Video'')
          (sendPlaying ''My_Video'' example_world))))"
  by (simp add: play_command_def shift_def handler_defs example_defs)







text \<open>
  The guard of \<open>play\<close>, \<open>playlink\<close> and \<open>jfplay\<close>: while joined, the command is
  rejected and nothing but the error message happens.
\<close>

lemma play_rejected_when_joined:
  "joined (streamStatus w) \<Longrightarrow>
     messageCreate cfg col Play args w = (sendError ''Already joined'' w, None)"
  by (simp add: play_command_def)

lemma playlink_rejected_when_joined:
  "joined (streamStatus w) \<Longrightarrow>
     messageCreate cfg col Playlink args w = (sendError ''Already joined'' w, None)"
  by (simp add: playlink_command_def)

lemma jfplay_rejected_when_joined:
  "joined (streamStatus w) \<Longrightarrow> cfg_jellyfin_enabled cfg \<Longrightarrow>
     messageCreate cfg col Jfplay args w = (sendError ''Already joined'' w, None)"
  by (simp add: jfplay_command_def)

lemma second_attempt_eval:
  "messageCreate example_config example_collaborators Ytplay [''song''] (fst playing_run)
     = (fst second_attempt, Some (snd second_attempt))"
  by (simp add: ytplay_command_def ytplay_title_def shift_def second_attempt_def
      example_collaborators_def truthy_def or_else_def Let_def)

text \<open>
  C1 at a failing input. \<open>ytplay\<close> has no such guard. While the local video plays
  (\<open>joined\<close> is true) \<open>play\<close> is rejected with "Already joined", but \<open>ytplay song\<close>
  sends no rejection and starts a second attempt, which joins and starts a second
  pipeline; and when the search of \<open>ytplay\<close> rejects, the handler's cleanup tears the
  running session down.
\<close>

theorem ytplay_while_joined_not_rejected:
  "joined (streamStatus (fst playing_run))
   \<and> messageCreate example_config example_collaborators Play [''My_Video''] (fst playing_run)
       = (sendError ''Already joined'' (fst playing_run), None)
   \<and> messageCreate example_config example_collaborators Ytplay [''song''] (fst playing_run)
       = (fst second_attempt, Some (snd second_attempt))
   \<and> since (fst playing_run) (fst second_attempt)
       = [GetVideoInfo ''https://www.youtube.com/watch?v=abc'']
   \<and> pc (snd second_playing) = AwaitPlayStream
   \<and> since (fst playing_run) (fst second_playing)
       = [GetVideoInfo ''https://www.youtube.com/watch?v=abc'',
          GetLiveStreamUrl ''https://www.youtube.com/watch?v=abc'',
          JoinVoice ''guild-1'' ''chan-video'', SetActivityWatch ''A song'',
          SendPlaying ''A song'', PrepareStream ''https://manifest.example/live.m3u8'',
          PlayStream]
   \<and> streamStatus (fst (messageCreate example_config failing_collaborators Ytplay [''song'']
                          (fst playing_run))) = idle_status
   \<and> since (fst playing_run)
        (fst (messageCreate example_config failing_collaborators Ytplay [''song'']
                (fst playing_run)))
       = [StopStream, LeaveVoice, SetActivityIdle,
          SendError ''Failed to play video. Please try again.'']"
proof -
  have 1: "joined (streamStatus (fst playing_run))"
    by (simp add: playing_run_eval)
  have 2: "messageCreate example_config example_collaborators Play [''My_Video''] (fst playing_run)
       = (sendError ''Already joined'' (fst playing_run), None)"
    using 1 by (simp add: play_command_def)
  have 4: "since (fst playing_run) (fst second_attempt)
       = [GetVideoInfo ''https://www.youtube.com/watch?v=abc'']"
    unfolding second_attempt_def playing_run_eval
    by (simp add: handler_defs example_config_def is_youtube_def)
  have 5: "pc (snd second_playing) = AwaitPlayStream"
    unfolding second_playing_def second_attempt_def playing_run_eval
    by (simp add: handler_defs example_config_def is_youtube_def)
  have 6: "since (fst playing_run) (fst second_playing)
       = [GetVideoInfo ''https://www.youtube.com/watch?v=abc'',
          GetLiveStreamUrl ''https://www.youtube.com/watch?v=abc'',
          JoinVoice ''guild-1'' ''chan-video'', SetActivityWatch ''A song'',
          SendPlaying ''A song'', PrepareStream ''https://manifest.example/live.m3u8'',
          PlayStream]"
    unfolding second_playing_def second_attempt_def playing_run_eval
    by (simp add: handler_defs example_config_def is_youtube_def)
  have 7: "streamStatus (fst (messageCreate example_config failing_collaborators Ytplay [''song'']
                          (fst playing_run))) = idle_status"
    unfolding playing_run_eval
    by (simp add: ytplay_command_def ytplay_title_def shift_def failing_collaborators_def
        example_collaborators_def handler_defs)
  have 8: "since (fst playing_run)
        (fst (messageCreate example_config failing_collaborators Ytplay [''song'']
                (fst playing_run)))
       = [StopStream, LeaveVoice, SetActivityIdle,
          SendError ''Failed to play video. Please try again.'']"
    unfolding playing_run_eval
    by (simp add: ytplay_command_def ytplay_title_def shift_def failing_collaborators_def
        example_collaborators_def handler_defs)
  show ?thesis using 1 2 second_attempt_eval 4 5 6 7 8 by blast
qed

text \<open>The first attempt once its download is done.\<close>

lemma downloaded_run_eval:
  "pc (snd downloaded_run) = AwaitJoinVoice"
  "tempFilePath (snd downloaded_run) = Some ''/tmp/abc.mp4''"
  "isLiveYouTubeStream (snd downloaded_run) = False"
  "controller (fst downloaded_run) = None"
  by (simp_all add: downloaded_run_def downloading_run_def handler_defs example_defs)

text \<open>
  C3 at a failing input. In the first attempt after the start the module variable
  \<open>controller\<close> is still undefined. When the voice join rejects after the download, the
  \<open>catch\<close> block and then the \<open>finally\<close> block read \<open>controller.signal\<close>, which is a
  TypeError: the \<open>finally\<close> block ends before the deletion and the temporary file is
  never deleted. (When the join succeeds and the stream ends, the file is deleted once.)
\<close>

theorem temp_file_kept_when_first_join_fails:
  "tempFilePath (snd downloaded_run) = Some ''/tmp/abc.mp4''
   \<and> controller (fst downloaded_run) = None
   \<and> pc (snd (run example_config [Rejects ''join timed out''] downloaded_run)) = Threw
   \<and> since example_world (fst (run example_config [Rejects ''join timed out''] downloaded_run))
       = [GetVideoInfo ''https://youtu.be/abc'', ReplyDownloading ''A title'',
          DownloadToTempFile ''https://youtu.be/abc'', DeleteDownloadingMessage,
          JoinVoice ''guild-1'' ''chan-video'']
   \<and> filter (\<lambda>e. e = UnlinkSync ''/tmp/abc.mp4'')
        (effects (fst (run example_config [Rejects ''join timed out''] downloaded_run))) = []
   \<and> filter (\<lambda>e. e = UnlinkSync ''/tmp/abc.mp4'')
        (effects (fst (run example_config [VoiceJoined, StreamSettled] downloaded_run)))
       = [UnlinkSync ''/tmp/abc.mp4'']"
  by (simp add: downloaded_run_def downloading_run_def handler_defs example_defs)

subsection \<open>How an attempt ends\<close>

lemma terminal_notifications_append:
  "terminal_notifications (xs @ ys) = terminal_notifications xs @ terminal_notifications ys"
  by (simp add: terminal_notifications_def)









text \<open>
  A voice join that rejects: with a controller from an earlier attempt the \<open>finally\<close>
  block runs to its end, deletion included; without one it stops at the first read of
  \<open>controller.signal\<close> and nothing more happens.
\<close>

lemma join_rejected_with_controller:
  assumes "pc a = AwaitJoinVoice" "controller w = Some b" "\<not> manualStop (streamStatus w)"
  shows "effects (fst (run cfg [Rejects e] (w, a)))
           = effects w @ [StopStream, LeaveVoice, SetActivityIdle] @ unlink_events a"
    and "pc (snd (run cfg [Rejects e] (w, a))) = Returned"
  using assms by (simp_all add: handler_defs unlink_events_def Let_def)

lemma join_rejected_without_controller:
  assumes "pc a = AwaitJoinVoice" "controller w = None" "\<not> manualStop (streamStatus w)"
  shows "run cfg [Rejects e] (w, a) = (w, a\<lparr>pc := Threw\<rparr>)"
  using assms by (simp add: handler_defs Let_def)

text \<open>An attempt for a live stream has nothing to delete.\<close>

lemma live_attempt_never_unlinks: "isLiveYouTubeStream a \<Longrightarrow> unlink_events a = []"
  by (simp add: unlink_events_def)




subsection \<open>YouTube sources\<close>















end
